theory Spec2Isabelle
  imports Main "HOL-Library.Word"
begin

section \<open>Data model\<close>

text \<open>
  The service (file \<^verbatim>\<open>src/unnamed/part_000\<close>, the variant with the cache and the
  worker goroutine) receives a JSON array from the target service, renames three fields
  of every element and answers the client. Slices of pointers are lists of options:
  \<open>None\<close> is the nil pointer.
\<close>

text \<open>
  A syntactically valid JSON document. \<open>JInt n\<close> is a number literal without fraction
  and exponent, \<open>JFrac b\<close> a literal with one of them, where \<open>b\<close> tells whether
  \<^verbatim>\<open>strconv.ParseFloat\<close> accepts it (it is within the range of a float64).
\<close>

datatype json =
    JNull
  | JBool bool
  | JInt int
  | JFrac bool
  | JStr string
  | JArr "json list"
  | JObj "(string \<times> json) list"

record inputItem =
  IndexStrings :: "string list"
  CountryCode :: string
  StateCode :: json
  Cases :: "(string \<times> string) list"
  Coordinates :: "(string \<times> json) list"
  CountryCases :: json
  Code :: string
  Name :: string
  Weight :: "64 word"
  Type :: string
  CountryName :: string
  MainAirportName :: json

record outputItem =
  Slug :: string
  Subtitle :: string
  Title :: string

type_synonym inputResp = "inputItem option list"
type_synonym outputResp = "outputItem option list"

datatype error =
    TransportError string
  | UpstreamStatusError nat
  | DecodeError string
  | NilPointerDereference

section \<open>The transformer\<close>

text \<open>
  The loop of \<^verbatim>\<open>handler\<close> that makes the result: \<^verbatim>\<open>output := make(outputResp, len(input))\<close>
  allocates \<open>len(input)\<close> nil pointers, and \<^verbatim>\<open>for k := range input\<close> stores a fresh
  item at every index. \<^verbatim>\<open>input[k].Code\<close> dereferences the pointer \<^verbatim>\<open>input[k]\<close>: on
  a nil pointer the goroutine panics.
\<close>

definition makeItem :: "inputItem \<Rightarrow> outputItem" where
  "makeItem it = \<lparr>Slug = Code it, Subtitle = CountryName it, Title = Name it\<rparr>"

function transform_loop :: "nat \<Rightarrow> inputResp \<Rightarrow> outputResp \<Rightarrow> error + outputResp" where
  "transform_loop k input output =
     (if k < length input then
        (case input ! k of
           None \<Rightarrow> Inl NilPointerDereference
         | Some it \<Rightarrow> transform_loop (Suc k) input (output[k := Some (makeItem it)]))
      else Inr output)"
  by pat_completeness auto
termination
  by (relation "measure (\<lambda>(k, input, output). length input - k)") auto

declare transform_loop.simps [simp del]

definition transform :: "inputResp \<Rightarrow> error + outputResp" where
  "transform input = transform_loop 0 input (replicate (length input) None)"

section \<open>Decoding the body of the target service\<close>

text \<open>
  \<^verbatim>\<open>json.Unmarshal(body, &result)\<close> fills the \<^verbatim>\<open>inputResp\<close> behind \<^verbatim>\<open>result\<close>.
  The decoder is the one of the Go standard library (package \<^verbatim>\<open>encoding/json\<close>); what
  follows is its documented behaviour on the type \<^verbatim>\<open>[]*inputItem\<close>: a key of an object
  is matched with the tag of a field, exactly or else case-insensitively; a key that
  matches no field is skipped together with its value; \<^verbatim>\<open>null\<close> leaves a string or a
  number as it is and makes a pointer, slice, map or interface nil; a value that is not
  appropriate for the type of its field, or a number that overflows it, is an error.
\<close>

datatype field =
    FIndexStrings | FCountryCode | FStateCode | FCases | FCoordinates | FCountryCases
  | FCode | FName | FWeight | FType | FCountryName | FMainAirportName

fun tag :: "field \<Rightarrow> string" where
  "tag FIndexStrings = ''index_strings''"
| "tag FCountryCode = ''country_code''"
| "tag FStateCode = ''state_code''"
| "tag FCases = ''cases''"
| "tag FCoordinates = ''coordinates''"
| "tag FCountryCases = ''country_cases''"
| "tag FCode = ''code''"
| "tag FName = ''name''"
| "tag FWeight = ''weight''"
| "tag FType = ''type''"
| "tag FCountryName = ''country_name''"
| "tag FMainAirportName = ''main_airport_name''"

definition itemFields :: "field list" where
  "itemFields = [FIndexStrings, FCountryCode, FStateCode, FCases, FCoordinates, FCountryCases,
     FCode, FName, FWeight, FType, FCountryName, FMainAirportName]"

definition isLetter :: "char \<Rightarrow> bool" where
  "isLetter c = (let n = (of_char c :: nat) in (65 \<le> n \<and> n \<le> 90) \<or> (97 \<le> n \<and> n \<le> 122))"

definition upper :: "char \<Rightarrow> nat" where
  "upper c = (let n = (of_char c :: nat) in if 97 \<le> n \<and> n \<le> 122 then n - 32 else n)"

text \<open>
  The folding comparison of a tag \<open>s\<close> (ASCII) with a key \<open>t\<close> (UTF-8 bytes): letters
  compare without case, and the Kelvin sign (bytes E2 84 AA) and the long s (bytes C5 BF)
  of a key stand for \<open>k\<close> and \<open>s\<close>.
\<close>

fun equalFold :: "string \<Rightarrow> string \<Rightarrow> bool" where
  "equalFold [] t = (t = [])"
| "equalFold (sb # s) [] = False"
| "equalFold (sb # s) (tb # t) =
     (if (of_char tb :: nat) < 128 then
        (sb = tb \<or> (isLetter sb \<and> upper sb = upper tb)) \<and> equalFold s t
      else if upper sb = 83 then
        of_char tb = (197 :: nat) \<and> map of_char (take 1 t) = [191 :: nat] \<and> equalFold s (drop 1 t)
      else if upper sb = 75 then
        of_char tb = (226 :: nat) \<and> map of_char (take 2 t) = [132, 170 :: nat] \<and> equalFold s (drop 2 t)
      else False)"

definition findField :: "string \<Rightarrow> field option" where
  "findField key =
     (case find (\<lambda>f. tag f = key) itemFields of
        Some f \<Rightarrow> Some f
      | None \<Rightarrow> find (\<lambda>f. equalFold (tag f) key) itemFields)"

text \<open>Whether every number inside a value can be stored as a float64.\<close>

fun fitsFloat64 :: "json \<Rightarrow> bool" where
  "fitsFloat64 (JInt n) = (\<bar>n\<bar> < 2 ^ 1024 - 2 ^ 970)"
| "fitsFloat64 (JFrac b) = b"
| "fitsFloat64 (JArr xs) = list_all fitsFloat64 xs"
| "fitsFloat64 (JObj kvs) = list_all fitsFloat64 (map snd kvs)"
| "fitsFloat64 JNull = True"
| "fitsFloat64 (JBool b) = True"
| "fitsFloat64 (JStr s) = True"

definition typeError :: "string \<Rightarrow> error" where
  "typeError t = DecodeError (''json: cannot unmarshal into Go value of type '' @ t)"

definition storeString :: "json \<Rightarrow> string \<Rightarrow> error + string" where
  "storeString v cur =
     (case v of JStr s \<Rightarrow> Inr s | JNull \<Rightarrow> Inr cur | _ \<Rightarrow> Inl (typeError ''string''))"

fun storeStringElems :: "json list \<Rightarrow> string list \<Rightarrow> error + string list" where
  "storeStringElems [] cur = Inr []"
| "storeStringElems (x # xs) cur =
     (case storeString x (case cur of [] \<Rightarrow> [] | c # _ \<Rightarrow> c) of
        Inl e \<Rightarrow> Inl e
      | Inr s \<Rightarrow>
          (case storeStringElems xs (tl cur) of
             Inl e \<Rightarrow> Inl e
           | Inr ss \<Rightarrow> Inr (s # ss)))"

definition storeStrings :: "json \<Rightarrow> string list \<Rightarrow> error + string list" where
  "storeStrings v cur =
     (case v of
        JArr xs \<Rightarrow> storeStringElems xs cur
      | JNull \<Rightarrow> Inr []
      | _ \<Rightarrow> Inl (typeError ''[]string''))"

definition mapStore :: "string \<Rightarrow> 'v \<Rightarrow> (string \<times> 'v) list \<Rightarrow> (string \<times> 'v) list" where
  "mapStore k v m = (k, v) # filter (\<lambda>kv. fst kv \<noteq> k) m"

fun storeStringMapElems ::
  "(string \<times> json) list \<Rightarrow> (string \<times> string) list \<Rightarrow> error + (string \<times> string) list" where
  "storeStringMapElems [] cur = Inr cur"
| "storeStringMapElems ((k, x) # kvs) cur =
     (case storeString x [] of
        Inl e \<Rightarrow> Inl e
      | Inr s \<Rightarrow> storeStringMapElems kvs (mapStore k s cur))"

definition storeStringMap ::
  "json \<Rightarrow> (string \<times> string) list \<Rightarrow> error + (string \<times> string) list" where
  "storeStringMap v cur =
     (case v of
        JObj kvs \<Rightarrow> storeStringMapElems kvs cur
      | JNull \<Rightarrow> Inr []
      | _ \<Rightarrow> Inl (typeError ''map[string]string''))"

definition storeFloat :: "json \<Rightarrow> error + json" where
  "storeFloat v =
     (case v of
        JInt n \<Rightarrow> if fitsFloat64 (JInt n) then Inr (JInt n) else Inl (typeError ''float64'')
      | JFrac b \<Rightarrow> if b then Inr (JFrac b) else Inl (typeError ''float64'')
      | JNull \<Rightarrow> Inr (JInt 0)
      | _ \<Rightarrow> Inl (typeError ''float64''))"

fun storeFloatMapElems ::
  "(string \<times> json) list \<Rightarrow> (string \<times> json) list \<Rightarrow> error + (string \<times> json) list" where
  "storeFloatMapElems [] cur = Inr cur"
| "storeFloatMapElems ((k, x) # kvs) cur =
     (case storeFloat x of
        Inl e \<Rightarrow> Inl e
      | Inr f \<Rightarrow> storeFloatMapElems kvs (mapStore k f cur))"

definition storeFloatMap ::
  "json \<Rightarrow> (string \<times> json) list \<Rightarrow> error + (string \<times> json) list" where
  "storeFloatMap v cur =
     (case v of
        JObj kvs \<Rightarrow> storeFloatMapElems kvs cur
      | JNull \<Rightarrow> Inr []
      | _ \<Rightarrow> Inl (typeError ''map[string]float64''))"

definition storeInt64 :: "json \<Rightarrow> 64 word \<Rightarrow> error + 64 word" where
  "storeInt64 v cur =
     (case v of
        JInt n \<Rightarrow>
          if - (2 ^ 63) \<le> n \<and> n < 2 ^ 63 then Inr (word_of_int n) else Inl (typeError ''int64'')
      | JNull \<Rightarrow> Inr cur
      | _ \<Rightarrow> Inl (typeError ''int64''))"

definition storeInterface :: "json \<Rightarrow> error + json" where
  "storeInterface v = (if fitsFloat64 v then Inr v else Inl (typeError ''float64''))"

fun storeField :: "field \<Rightarrow> json \<Rightarrow> inputItem \<Rightarrow> error + inputItem" where
  "storeField FIndexStrings v it =
     map_sum id (\<lambda>x. it\<lparr>IndexStrings := x\<rparr>) (storeStrings v (IndexStrings it))"
| "storeField FCountryCode v it =
     map_sum id (\<lambda>x. it\<lparr>CountryCode := x\<rparr>) (storeString v (CountryCode it))"
| "storeField FStateCode v it =
     map_sum id (\<lambda>x. it\<lparr>StateCode := x\<rparr>) (storeInterface v)"
| "storeField FCases v it =
     map_sum id (\<lambda>x. it\<lparr>Cases := x\<rparr>) (storeStringMap v (Cases it))"
| "storeField FCoordinates v it =
     map_sum id (\<lambda>x. it\<lparr>Coordinates := x\<rparr>) (storeFloatMap v (Coordinates it))"
| "storeField FCountryCases v it =
     map_sum id (\<lambda>x. it\<lparr>CountryCases := x\<rparr>) (storeInterface v)"
| "storeField FCode v it =
     map_sum id (\<lambda>x. it\<lparr>Code := x\<rparr>) (storeString v (Code it))"
| "storeField FName v it =
     map_sum id (\<lambda>x. it\<lparr>Name := x\<rparr>) (storeString v (Name it))"
| "storeField FWeight v it =
     map_sum id (\<lambda>x. it\<lparr>Weight := x\<rparr>) (storeInt64 v (Weight it))"
| "storeField FType v it =
     map_sum id (\<lambda>x. it\<lparr>Type := x\<rparr>) (storeString v (Type it))"
| "storeField FCountryName v it =
     map_sum id (\<lambda>x. it\<lparr>CountryName := x\<rparr>) (storeString v (CountryName it))"
| "storeField FMainAirportName v it =
     map_sum id (\<lambda>x. it\<lparr>MainAirportName := x\<rparr>) (storeInterface v)"

text \<open>The members of an object, in the order of the document; the first error ends it.\<close>

fun object :: "(string \<times> json) list \<Rightarrow> inputItem \<Rightarrow> error + inputItem" where
  "object [] it = Inr it"
| "object ((k, v) # kvs) it =
     (case findField k of
        None \<Rightarrow> object kvs it
      | Some f \<Rightarrow>
          (case storeField f v it of
             Inl e \<Rightarrow> Inl e
           | Inr it' \<Rightarrow> object kvs it'))"

definition zeroItem :: inputItem where
  "zeroItem = \<lparr>IndexStrings = [], CountryCode = [], StateCode = JNull, Cases = [],
     Coordinates = [], CountryCases = JNull, Code = [], Name = [], Weight = 0, Type = [],
     CountryName = [], MainAirportName = JNull\<rparr>"

definition storeElem :: "json \<Rightarrow> error + inputItem option" where
  "storeElem v =
     (case v of
        JObj kvs \<Rightarrow> map_sum id Some (object kvs zeroItem)
      | JNull \<Rightarrow> Inr None
      | _ \<Rightarrow> Inl (typeError ''main.inputItem''))"

fun storeElems :: "json list \<Rightarrow> error + inputResp" where
  "storeElems [] = Inr []"
| "storeElems (x # xs) =
     (case storeElem x of
        Inl e \<Rightarrow> Inl e
      | Inr i \<Rightarrow>
          (case storeElems xs of
             Inl e \<Rightarrow> Inl e
           | Inr is \<Rightarrow> Inr (i # is)))"

text \<open>The target starts as \<^verbatim>\<open>inputResp{}\<close>; a document \<^verbatim>\<open>null\<close> leaves it empty.\<close>

definition Unmarshal :: "json \<Rightarrow> error + inputResp" where
  "Unmarshal doc =
     (case doc of
        JArr xs \<Rightarrow> storeElems xs
      | JNull \<Rightarrow> Inr []
      | _ \<Rightarrow> Inl (typeError ''main.inputResp''))"

section \<open>The upstream client\<close>

text \<open>
  What the network does with one GET is the choice of the environment: \<^verbatim>\<open>http.NewRequest\<close>
  rejects the URL, \<^verbatim>\<open>client.Do\<close> fails, or a response with a status code arrives whose
  body cannot be read, is not JSON, or is a JSON document.
\<close>

datatype body = ReadError string | Malformed string | Document json

datatype reply = NewRequestError string | DoError string | Response nat body

text \<open>
  \<^verbatim>\<open>request\<close> (lines 102 to 145). The request carries the context of
  \<^verbatim>\<open>handlerFunc\<close> (\<^verbatim>\<open>req.WithContext(ctx)\<close>): once that context is done,
  \<^verbatim>\<open>client.Do\<close> and the read of the body return its error. The parameter
  \<^verbatim>\<open>timeout\<close> is not used. The error of a status other than 200 carries the code
  (its text is \<^verbatim>\<open>http.StatusText\<close> of the code).
\<close>

definition request :: "bool \<Rightarrow> reply \<Rightarrow> error + inputResp" where
  "request ctxIsDone rep =
     (case rep of
        NewRequestError e \<Rightarrow> Inl (TransportError e)
      | DoError e \<Rightarrow>
          if ctxIsDone then Inl (TransportError ''context deadline exceeded'')
          else Inl (TransportError e)
      | Response code b \<Rightarrow>
          if ctxIsDone then Inl (TransportError ''context deadline exceeded'')
          else if code \<noteq> 200 then Inl (UpstreamStatusError code)
          else
            (case b of
               ReadError e \<Rightarrow> Inl (TransportError e)
             | Malformed e \<Rightarrow> Inl (DecodeError e)
             | Document doc \<Rightarrow> Unmarshal doc))"

section \<open>The cache\<close>

text \<open>
  The cache is \<^verbatim>\<open>lru.Cache\<close> of \<^verbatim>\<open>github.com/hashicorp/golang-lru\<close>, a bounded store
  that keeps its entries in the order of their last use, the most recent first, and
  stores values of type \<^verbatim>\<open>interface{}\<close>: \<^verbatim>\<open>New\<close> refuses a size that is not
  positive; \<^verbatim>\<open>Add\<close> overwrites the entry of a known key or inserts a new one and
  then drops the oldest entry when the size is exceeded; \<^verbatim>\<open>Get\<close> moves the entry
  to the front. Its lock makes every call atomic.
\<close>

datatype iface = OutputResp outputResp | InputResp inputResp | ErrorValue error

record lru =
  capacity :: nat
  entries :: "(string \<times> iface) list"

definition New :: "int \<Rightarrow> string + lru" where
  "New n = (if n \<le> 0 then Inl ''Must provide a positive size''
            else Inr \<lparr>capacity = nat n, entries = []\<rparr>)"

definition Get :: "string \<Rightarrow> lru \<Rightarrow> iface option \<times> lru" where
  "Get key c =
     (case map_of (entries c) key of
        None \<Rightarrow> (None, c)
      | Some v \<Rightarrow> (Some v, c\<lparr>entries := (key, v) # filter (\<lambda>e. fst e \<noteq> key) (entries c)\<rparr>))"

definition Add :: "string \<Rightarrow> iface \<Rightarrow> lru \<Rightarrow> lru" where
  "Add key v c =
     (if key \<in> fst ` set (entries c) then
        c\<lparr>entries := (key, v) # filter (\<lambda>e. fst e \<noteq> key) (entries c)\<rparr>
      else if capacity c < Suc (length (entries c)) then
        c\<lparr>entries := (key, v) # butlast (entries c)\<rparr>
      else c\<lparr>entries := (key, v) # entries c\<rparr>)"

section \<open>The response writer\<close>

text \<open>
  \<^verbatim>\<open>http.ResponseWriter\<close>: the first \<^verbatim>\<open>WriteHeader\<close> fixes the status and a later
  one is ignored; a \<^verbatim>\<open>Write\<close> before any \<^verbatim>\<open>WriteHeader\<close> fixes the status 200.
  The field \<open>written\<close> has one element for every call of \<^verbatim>\<open>Write\<close>: given bytes, or
  the \<^verbatim>\<open>json.Marshal\<close> of an \<^verbatim>\<open>outputResp\<close> (which cannot fail on this type).
\<close>

datatype payload = Bytes string | Marshal outputResp

record responseWriter =
  header :: "(string \<times> string) list"
  status :: "nat option"
  written :: "payload list"

definition newResponseWriter :: responseWriter where
  "newResponseWriter = \<lparr>header = [], status = None, written = []\<rparr>"

definition WriteHeader :: "nat \<Rightarrow> responseWriter \<Rightarrow> responseWriter" where
  "WriteHeader code w = (if status w = None then w\<lparr>status := Some code\<rparr> else w)"

definition Write :: "payload \<Rightarrow> responseWriter \<Rightarrow> responseWriter" where
  "Write p w = (WriteHeader 200 w)\<lparr>written := written (WriteHeader 200 w) @ [p]\<rparr>"

definition StatusGatewayTimeout :: nat where
  "StatusGatewayTimeout = 504"

definition StatusInternalServerError :: nat where
  "StatusInternalServerError = 500"

definition internalErr :: string where
  "internalErr = ''{\"error\": \"internal error\"}''"

definition addJSONContentType :: "responseWriter \<Rightarrow> responseWriter" where
  "addJSONContentType w = w\<lparr>header := header w @ [(''Content-Type'', ''application/json'')]\<rparr>"

text \<open>\<^verbatim>\<open>response\<close> (lines 213 to 225), on an \<^verbatim>\<open>outputResp\<close>.\<close>

definition response :: "responseWriter \<Rightarrow> outputResp \<Rightarrow> responseWriter" where
  "response w data = Write (Marshal data) w"

text \<open>\<^verbatim>\<open>push\<close> (lines 243 to 245) and \<^verbatim>\<open>pullAndResponse\<close> (lines 227 to 241).\<close>

definition push :: "string \<Rightarrow> iface \<Rightarrow> lru \<Rightarrow> lru" where
  "push u data c = Add u data c"

definition pullAndResponse :: "string \<Rightarrow> responseWriter \<Rightarrow> lru \<Rightarrow> bool \<times> responseWriter \<times> lru" where
  "pullAndResponse key w c =
     (case Get key c of
        (None, c') \<Rightarrow> (False, w, c')
      | (Some val, c') \<Rightarrow>
          (case val of
             OutputResp data \<Rightarrow> (True, response w data, c')
           | _ \<Rightarrow> (False, w, c')))"

section \<open>Configuration and the deadline\<close>

text \<open>
  \<^verbatim>\<open>time.Duration\<close> is a signed 64-bit count of nanoseconds and
  \<^verbatim>\<open>time.Millisecond\<close> is the constant 1000000; products wrap around.
  \<^verbatim>\<open>RequestTimeout uint64 // In milliseconds.\<close>
\<close>

type_synonym Duration = "64 word"

definition Millisecond :: Duration where
  "Millisecond = 1000000"

record config =
  Addr :: string
  CacheSize :: int
  LogLevel :: string
  RequestTimeout :: "64 word"
  TargetAddr :: string

definition newConfig :: config where
  "newConfig = \<lparr>Addr = '':80'', CacheSize = 1000, LogLevel = ''info'',
     RequestTimeout = 3000, TargetAddr = ''https://places.aviasales.ru''\<rparr>"

record server =
  debug :: bool
  reqTimeout :: Duration
  targetAddress :: string

definition newServer :: "config \<Rightarrow> server" where
  "newServer cfg =
     \<lparr>debug = (LogLevel cfg = ''debug'' \<or> LogLevel cfg = ''DEBUG''),
      reqTimeout = RequestTimeout cfg * Millisecond,
      targetAddress = TargetAddr cfg\<rparr>"

text \<open>
  The duration \<^verbatim>\<open>handlerFunc\<close> gives to \<^verbatim>\<open>context.WithTimeout\<close>:
  \<^verbatim>\<open>time.Duration(s.reqTimeout)*time.Millisecond\<close>, in nanoseconds, read as a signed
  number.
\<close>

definition ctxTimeout :: "server \<Rightarrow> int" where
  "ctxTimeout s = sint (reqTimeout s * Millisecond)"

section \<open>The orchestrator\<close>

text \<open>
  \<^verbatim>\<open>handler\<close> (lines 177 to 211), the body of the goroutine, given what the network
  answers: the result is the writer and the cache it leaves, or the panic of the
  dereference. Its last act, the deferred \<^verbatim>\<open>select\<close> with \<^verbatim>\<open>default\<close>, is in
  \<open>handler_step\<close> below.
\<close>

definition handler ::
  "bool \<Rightarrow> string \<Rightarrow> reply \<Rightarrow> responseWriter \<Rightarrow> lru \<Rightarrow> error + responseWriter \<times> lru" where
  "handler ctxIsDone u rep w c =
     (case request ctxIsDone rep of
        Inl e \<Rightarrow> Inr (Write (Bytes internalErr) w, c)
      | Inr input \<Rightarrow>
          (case transform input of
             Inl e \<Rightarrow> Inl e
           | Inr out \<Rightarrow> Inr (response w out, push u (OutputResp out) c)))"

text \<open>
  One request is two threads, \<^verbatim>\<open>handlerFunc\<close> and the goroutine it starts with
  \<^verbatim>\<open>go s.handler(...)\<close>, which share the writer, the cache, the context and the
  channel \<^verbatim>\<open>done\<close>. Each thread has a program counter; a step is one access to what
  they share.

  \<^verbatim>\<open>handlerFunc\<close>: \<open>MSelect\<close> is the point before the \<^verbatim>\<open>select\<close>, \<open>MWaiting\<close> is
  blocked in it, \<open>MTimeoutHeader\<close> and \<open>MTimeoutBody\<close> are the two calls of the case
  \<^verbatim>\<open><-ctx.Done()\<close>, and the function has returned in \<open>MCacheHit\<close> (line 273),
  \<open>MCompleted\<close> (case \<^verbatim>\<open><-done\<close>) and \<open>MTimedOut\<close>.

  \<^verbatim>\<open>handler\<close>: \<open>WRequest\<close> is inside \<^verbatim>\<open>s.request\<close>, \<open>WWriteErr\<close> before line 190,
  \<open>WPush\<close> before line 209, \<open>WResponse\<close> before line 210, \<open>WSignal\<close> before the deferred
  send, \<open>WDone\<close> after it; \<open>WPanic\<close> is the panic of line 203 and \<open>WNone\<close> a request
  that started no goroutine.
\<close>

datatype mainPC =
  MSelect | MWaiting | MTimeoutHeader | MTimeoutBody | MCacheHit | MCompleted | MTimedOut

datatype workerPC =
  WNone | WRequest | WWriteErr | WPush outputResp | WResponse outputResp | WSignal | WDone | WPanic

record reqState =
  reqURL :: string
  writer :: responseWriter
  started :: nat
  ctxDone :: bool
  mainPC :: mainPC
  workerPC :: workerPC

text \<open>
  \<^verbatim>\<open>handlerFunc\<close> up to line 277, at the time \<open>t\<close>: the context (done at once when the
  duration is not positive), the header, the look in the cache, and either the return
  or the start of the goroutine. A return cancels the context (\<^verbatim>\<open>defer cancel()\<close>).
\<close>

definition handlerFunc_enter :: "server \<Rightarrow> nat \<Rightarrow> string \<Rightarrow> lru \<Rightarrow> reqState \<times> lru" where
  "handlerFunc_enter s t u c =
     (case pullAndResponse u (addJSONContentType newResponseWriter) c of
        (True, w, c') \<Rightarrow>
          (\<lparr>reqURL = u, writer = w, started = t, ctxDone = True,
            mainPC = MCacheHit, workerPC = WNone\<rparr>, c')
      | (False, w, c') \<Rightarrow>
          (\<lparr>reqURL = u, writer = w, started = t, ctxDone = (ctxTimeout s \<le> 0),
            mainPC = MSelect, workerPC = WRequest\<rparr>, c'))"

text \<open>
  The \<^verbatim>\<open>select\<close> of lines 279 to 284. Nobody can be sending on \<^verbatim>\<open>done\<close> when it is
  entered (the send never blocks), so it takes \<^verbatim>\<open><-ctx.Done()\<close> when the context is
  done and blocks otherwise.
\<close>

definition handlerFunc_step :: "reqState \<Rightarrow> reqState option" where
  "handlerFunc_step r =
     (case mainPC r of
        MSelect \<Rightarrow>
          Some (if ctxDone r then r\<lparr>mainPC := MTimeoutHeader\<rparr> else r\<lparr>mainPC := MWaiting\<rparr>)
      | MTimeoutHeader \<Rightarrow>
          Some (r\<lparr>writer := WriteHeader StatusGatewayTimeout (writer r), mainPC := MTimeoutBody\<rparr>)
      | MTimeoutBody \<Rightarrow>
          Some (r\<lparr>writer := Write (Bytes internalErr) (writer r), mainPC := MTimedOut,
                 ctxDone := True\<rparr>)
      | _ \<Rightarrow> None)"

text \<open>The context becomes done: a \<^verbatim>\<open>select\<close> that is blocked takes its first case.\<close>

definition ctxFire :: "reqState \<Rightarrow> reqState" where
  "ctxFire r =
     r\<lparr>ctxDone := True,
       mainPC := (if mainPC r = MWaiting then MTimeoutHeader else mainPC r)\<rparr>"

text \<open>\<^verbatim>\<open>s.request\<close> returns in the goroutine, and the result is made (lines 187 to 207).\<close>

definition handler_fetch :: "reply \<Rightarrow> reqState \<Rightarrow> reqState option" where
  "handler_fetch rep r =
     (case workerPC r of
        WRequest \<Rightarrow>
          Some (case request (ctxDone r) rep of
                  Inl e \<Rightarrow> r\<lparr>workerPC := WWriteErr\<rparr>
                | Inr input \<Rightarrow>
                    (case transform input of
                       Inl e \<Rightarrow> r\<lparr>workerPC := WPanic\<rparr>
                     | Inr out \<Rightarrow> r\<lparr>workerPC := WPush out\<rparr>))
      | _ \<Rightarrow> None)"

text \<open>
  The other steps of the goroutine. The deferred send
  \<^verbatim>\<open>select { case done <- struct{}{}: default: }\<close> on the unbuffered channel succeeds
  only when \<^verbatim>\<open>handlerFunc\<close> is blocked in its \<^verbatim>\<open>select\<close>, which then returns.
\<close>

definition handler_step :: "reqState \<Rightarrow> lru \<Rightarrow> (reqState \<times> lru) option" where
  "handler_step r c =
     (case workerPC r of
        WWriteErr \<Rightarrow>
          Some (r\<lparr>writer := Write (Bytes internalErr) (writer r), workerPC := WSignal\<rparr>, c)
      | WPush out \<Rightarrow>
          Some (r\<lparr>workerPC := WResponse out\<rparr>, push (reqURL r) (OutputResp out) c)
      | WResponse out \<Rightarrow>
          Some (r\<lparr>writer := response (writer r) out, workerPC := WSignal\<rparr>, c)
      | WSignal \<Rightarrow>
          Some (if mainPC r = MWaiting
                then r\<lparr>mainPC := MCompleted, ctxDone := True, workerPC := WDone\<rparr>
                else r\<lparr>workerPC := WDone\<rparr>, c)
      | _ \<Rightarrow> None)"

section \<open>The server\<close>

text \<open>
  The state of the process: the server, its cache, the requests received so far, the
  calls made to the target service (URL and answer), and a clock in nanoseconds. A panic
  in a goroutine ends the process.
\<close>

record sys =
  srv :: server
  cache :: lru
  reqs :: "reqState list"
  upstream :: "(string \<times> reply) list"
  now :: nat
  crashed :: bool

datatype action =
    Tick nat
  | Arrive string
  | Main nat
  | Worker nat
  | Fetched nat reply
  | Deadline nat
  | Cancel nat

text \<open>
  \<open>Tick\<close> lets time pass; \<open>Arrive\<close> is a new request; \<open>Main\<close> and \<open>Worker\<close> are a step
  of a thread of a request; \<open>Fetched\<close> is the return of its call of the target service;
  \<open>Deadline\<close> is the timer of its context, which fires when the duration given to
  \<^verbatim>\<open>context.WithTimeout\<close> has passed; \<open>Cancel\<close> is the end of the parent context (the
  client has gone). The result is \<open>None\<close> when the action cannot happen.
\<close>

definition step :: "action \<Rightarrow> sys \<Rightarrow> sys option" where
  "step a s =
     (if crashed s then None
      else
        (case a of
           Tick d \<Rightarrow> Some (s\<lparr>now := now s + d\<rparr>)
         | Arrive u \<Rightarrow>
             (case handlerFunc_enter (srv s) (now s) u (cache s) of
                (r, c) \<Rightarrow> Some (s\<lparr>cache := c, reqs := reqs s @ [r]\<rparr>))
         | Main i \<Rightarrow>
             (if i < length (reqs s) then
                (case handlerFunc_step (reqs s ! i) of
                   None \<Rightarrow> None
                 | Some r \<Rightarrow> Some (s\<lparr>reqs := (reqs s)[i := r]\<rparr>))
              else None)
         | Worker i \<Rightarrow>
             (if i < length (reqs s) then
                (case handler_step (reqs s ! i) (cache s) of
                   None \<Rightarrow> None
                 | Some (r, c) \<Rightarrow> Some (s\<lparr>cache := c, reqs := (reqs s)[i := r]\<rparr>))
              else None)
         | Fetched i rep \<Rightarrow>
             (if i < length (reqs s) then
                (case handler_fetch rep (reqs s ! i) of
                   None \<Rightarrow> None
                 | Some r \<Rightarrow>
                     Some (s\<lparr>reqs := (reqs s)[i := r],
                             upstream := upstream s @
                               [(targetAddress (srv s) @ reqURL (reqs s ! i), rep)],
                             crashed := (workerPC r = WPanic)\<rparr>))
              else None)
         | Deadline i \<Rightarrow>
             (if i < length (reqs s) \<and> \<not> ctxDone (reqs s ! i) \<and>
                 ctxTimeout (srv s) \<le> int (now s - started (reqs s ! i))
              then Some (s\<lparr>reqs := (reqs s)[i := ctxFire (reqs s ! i)]\<rparr>)
              else None)
         | Cancel i \<Rightarrow>
             (if i < length (reqs s) \<and> \<not> ctxDone (reqs s ! i)
              then Some (s\<lparr>reqs := (reqs s)[i := ctxFire (reqs s ! i)]\<rparr>)
              else None)))"

fun run :: "action list \<Rightarrow> sys \<Rightarrow> sys option" where
  "run [] s = Some s"
| "run (a # as) s = (case step a s of None \<Rightarrow> None | Some s' \<Rightarrow> run as s')"

text \<open>\<^verbatim>\<open>main\<close> after the configuration is read: the cache and the server.\<close>

definition boot :: "config \<Rightarrow> string + sys" where
  "boot cfg =
     (case New (CacheSize cfg) of
        Inl e \<Rightarrow> Inl e
      | Inr c \<Rightarrow>
          Inr \<lparr>srv = newServer cfg, cache = c, reqs = [], upstream = [], now = 0,
               crashed = False\<rparr>)"

text \<open>
  \<^verbatim>\<open>handlerFunc\<close> of \<^verbatim>\<open>src/adviser.go\<close> (lines 171 to 226), the variant without
  cache and goroutine, whose \<^verbatim>\<open>request\<close> makes its own context.
\<close>

definition adviser_handlerFunc :: "reply \<Rightarrow> responseWriter \<Rightarrow> error + responseWriter" where
  "adviser_handlerFunc rep w0 =
     (let w = addJSONContentType w0 in
      case request False rep of
        Inl e \<Rightarrow> Inr (Write (Bytes internalErr) (WriteHeader StatusInternalServerError w))
      | Inr input \<Rightarrow>
          (case transform input of
             Inl e \<Rightarrow> Inl e
           | Inr out \<Rightarrow> Inr (Write (Marshal out) w)))"

text \<open>
  The process started with a configuration and driven through a schedule, and what the
  client of request \<open>i\<close> has been sent: the status and the bodies written.
\<close>

definition serve :: "config \<Rightarrow> action list \<Rightarrow> sys option" where
  "serve cfg acts = (case boot cfg of Inl e \<Rightarrow> None | Inr s \<Rightarrow> run acts s)"

definition answer :: "nat \<Rightarrow> sys \<Rightarrow> nat option \<times> payload list" where
  "answer i s = (status (writer (reqs s ! i)), written (writer (reqs s ! i)))"

definition outcome :: "nat \<Rightarrow> sys \<Rightarrow> mainPC \<times> workerPC" where
  "outcome i s = (mainPC (reqs s ! i), workerPC (reqs s ! i))"





text \<open>
  The provenance of a cached value: a call of the target service for the URL of the key
  is on record whose answer \<^verbatim>\<open>request\<close> accepts and whose decoded collection
  \<open>transform\<close> turns into the value.
\<close>

definition fetchedOk :: "server \<Rightarrow> (string \<times> reply) list \<Rightarrow> string \<Rightarrow> outputResp \<Rightarrow> bool" where
  "fetchedOk sv log k out =
     list_ex (\<lambda>call. fst call = targetAddress sv @ k \<and>
        (case request False (snd call) of
           Inl e \<Rightarrow> False
         | Inr input \<Rightarrow> transform input = Inr out)) log"

definition okValue :: "server \<Rightarrow> (string \<times> reply) list \<Rightarrow> string \<times> iface \<Rightarrow> bool" where
  "okValue sv log e =
     (case snd e of OutputResp out \<Rightarrow> fetchedOk sv log (fst e) out | _ \<Rightarrow> False)"

definition okWorker :: "server \<Rightarrow> (string \<times> reply) list \<Rightarrow> reqState \<Rightarrow> bool" where
  "okWorker sv log r =
     (case workerPC r of WPush out \<Rightarrow> fetchedOk sv log (reqURL r) out | _ \<Rightarrow> True)"

definition cache_inv :: "sys \<Rightarrow> bool" where
  "cache_inv s \<longleftrightarrow>
     list_all (okValue (srv s) (upstream s)) (entries (cache s)) \<and>
     list_all (okWorker (srv s) (upstream s)) (reqs s)"






lemmas model_defs =
  serve_def boot_def New_def newConfig_def newServer_def ctxTimeout_def Millisecond_def
  step_def handlerFunc_enter_def handlerFunc_step_def handler_fetch_def handler_step_def
  ctxFire_def pullAndResponse_def Get_def Add_def push_def response_def
  addJSONContentType_def newResponseWriter_def Write_def WriteHeader_def
  StatusGatewayTimeout_def StatusInternalServerError_def request_def answer_def outcome_def

section \<open>The transformer: one output item for every input item\<close>

lemma transform_loop_Inr:
  assumes "length outp = length input" and "k \<le> length input"
    and "\<forall>x\<in>set input. x \<noteq> None"
  shows "\<exists>res. transform_loop k input outp = Inr res \<and> length res = length input \<and>
    (\<forall>j<length input. res ! j =
       (if j < k then outp ! j else Some (makeItem (the (input ! j)))))"
  using assms
proof (induction k input outp rule: transform_loop.induct)
  case (1 k input outp)
  show ?case
  proof (cases "k < length input")
    case False
    then show ?thesis using 1(2,3) by (simp add: transform_loop.simps)
  next
    case True
    then obtain it where it: "input ! k = Some it"
      using 1(4) by (metis nth_mem not_Some_eq)
    from 1(1)[OF True it] 1(2,3,4) True
    obtain res where r: "transform_loop (Suc k) input (outp[k := Some (makeItem it)]) = Inr res"
      "length res = length input"
      "\<forall>j<length input. res ! j =
         (if j < Suc k then (outp[k := Some (makeItem it)]) ! j
          else Some (makeItem (the (input ! j))))"
      by auto
    have "transform_loop k input outp = Inr res"
      using True it r(1) by (subst transform_loop.simps) simp
    moreover have "\<forall>j<length input. res ! j =
        (if j < k then outp ! j else Some (makeItem (the (input ! j))))"
      using r(3) it 1(2) by (auto simp: nth_list_update less_Suc_eq)
    ultimately show ?thesis using r(2) by blast
  qed
qed

text \<open>
  C6, as stated, fails on a collection with a nil element (the element \<^verbatim>\<open>null\<close> of the
  array of the target service): the loop panics at \<^verbatim>\<open>input[k].Code\<close> and makes no
  result at all.
\<close>

theorem transform_nil_panics: "transform [None] = Inl NilPointerDereference"
  by (simp add: transform_def transform_loop.simps)

text \<open>
  C6, amended: for every input collection without nil element, the result has the length
  of the input and its element \<open>k\<close> is made from element \<open>k\<close> of the input by
  slug = code, subtitle = country_name, title = name; nothing is filtered out, whatever
  the fields hold.
\<close>

theorem transform_derived:
  assumes "\<forall>x\<in>set I. x \<noteq> None"
  shows "\<exists>out. transform I = Inr out \<and> length out = length I \<and>
    (\<forall>k<length I. out ! k =
       Some \<lparr>Slug = Code (the (I ! k)), Subtitle = CountryName (the (I ! k)),
             Title = Name (the (I ! k))\<rparr>)"
  using transform_loop_Inr [of "replicate (length I) None" I 0] assms
  by (simp add: transform_def makeItem_def)

theorem transform_derived_witness:
  "None \<notin> set [Some zeroItem, Some (zeroItem\<lparr>Code := ''MOW'', Name := ''Moscow'',
        CountryName := ''Russia''\<rparr>)] \<and>
   transform [Some zeroItem, Some (zeroItem\<lparr>Code := ''MOW'', Name := ''Moscow'',
        CountryName := ''Russia''\<rparr>)] =
     Inr [Some \<lparr>Slug = [], Subtitle = [], Title = []\<rparr>,
          Some \<lparr>Slug = ''MOW'', Subtitle = ''Russia'', Title = ''Moscow''\<rparr>]"
proof -
  let ?I = "[Some zeroItem, Some (zeroItem\<lparr>Code := ''MOW'', Name := ''Moscow'',
        CountryName := ''Russia''\<rparr>)]"
  have h: "\<forall>x\<in>set ?I. x \<noteq> None" by simp
  from transform_derived [OF h] obtain out where o: "transform ?I = Inr out"
    "length out = length ?I"
    "\<forall>k<length ?I. out ! k =
       Some \<lparr>Slug = Code (the (?I ! k)), Subtitle = CountryName (the (?I ! k)),
             Title = Name (the (?I ! k))\<rparr>"
    by blast
  from o(3) have "out ! 0 = Some \<lparr>Slug = [], Subtitle = [], Title = []\<rparr>"
    and "out ! 1 = Some \<lparr>Slug = ''MOW'', Subtitle = ''Russia'', Title = ''Moscow''\<rparr>"
    by (simp_all add: zeroItem_def)
  moreover from o(2) obtain a b where "out = [a, b]"
    by (cases out; cases "tl out"; cases "tl (tl out)") auto
  ultimately have "out = [Some \<lparr>Slug = [], Subtitle = [], Title = []\<rparr>,
          Some \<lparr>Slug = ''MOW'', Subtitle = ''Russia'', Title = ''Moscow''\<rparr>]"
    by simp
  with o(1) h show ?thesis by simp
qed

section \<open>The deadline\<close>

text \<open>
  C5: the configuration gives the timeout in milliseconds (3000 by default). The code
  multiplies it by \<^verbatim>\<open>time.Millisecond\<close> in \<^verbatim>\<open>newServer\<close> and once more in
  \<^verbatim>\<open>handlerFunc\<close>: with the default configuration the context of a request lasts
  3000000000000000 ns (3000000 s) and not the 3000000000 ns of 3000 ms.
\<close>

theorem ctxTimeout_default:
  "ctxTimeout (newServer newConfig) = 3000 * 1000000 * 1000000 \<and>
   ctxTimeout (newServer newConfig) \<noteq> 3000 * 1000000"
  by (simp add: ctxTimeout_def newServer_def newConfig_def Millisecond_def)

section \<open>A failure of the target service\<close>

text \<open>
  C4: a request that misses the cache and whose call of the target service is answered
  with status 503 before the deadline. The goroutine writes the error body without a
  call of \<^verbatim>\<open>WriteHeader\<close>, so the status of the response is 200; the cache stays
  empty and the target service is called once. \<^verbatim>\<open>handlerFunc\<close> of
  \<^verbatim>\<open>src/adviser.go\<close> sets the status 500 before it writes the same body.
\<close>

theorem upstream_503_answer:
  "map_option (answer 0)
     (serve newConfig [Arrive ''/v2/places.json'', Main 0,
        Fetched 0 (Response 503 (Malformed [])), Worker 0, Worker 0])
     = Some (Some 200, [Bytes internalErr]) \<and>
   map_option (outcome 0)
     (serve newConfig [Arrive ''/v2/places.json'', Main 0,
        Fetched 0 (Response 503 (Malformed [])), Worker 0, Worker 0])
     = Some (MCompleted, WDone) \<and>
   map_option (entries \<circ> cache)
     (serve newConfig [Arrive ''/v2/places.json'', Main 0,
        Fetched 0 (Response 503 (Malformed [])), Worker 0, Worker 0])
     = Some [] \<and>
   map_option (length \<circ> upstream)
     (serve newConfig [Arrive ''/v2/places.json'', Main 0,
        Fetched 0 (Response 503 (Malformed [])), Worker 0, Worker 0])
     = Some 1 \<and>
   adviser_handlerFunc (Response 503 (Malformed [])) newResponseWriter
     = Inr \<lparr>header = [(''Content-Type'', ''application/json'')], status = Some 500,
            written = [Bytes internalErr]\<rparr>"
  by (simp add: model_defs adviser_handlerFunc_def)

section \<open>What holds of every request\<close>








lemma run_invariant:
  assumes pres: "\<And>a s s'. P s \<Longrightarrow> step a s = Some s' \<Longrightarrow> P s'"
  shows "P s \<Longrightarrow> run acts s = Some s' \<Longrightarrow> P s'"
proof (induction acts arbitrary: s)
  case Nil then show ?case by simp
next
  case (Cons a acts)
  from Cons.prems(2) obtain s1 where 1: "step a s = Some s1" and 2: "run acts s1 = Some s'"
    by (simp split: option.splits)
  from Cons.prems(1) 1 have "P s1" by (rule pres)
  then show ?case using 2 by (rule Cons.IH)
qed


section \<open>One response for a request\<close>




section \<open>A cached value of another type\<close>

text \<open>
  C10: when the cache holds under the key a value that is not an \<^verbatim>\<open>outputResp\<close>,
  \<^verbatim>\<open>pullAndResponse\<close> returns false and writes nothing, and \<^verbatim>\<open>handlerFunc\<close> goes on
  as on a miss: the process does not stop, nothing is written to the client, and the
  goroutine is started, inside its call of the target service.
\<close>

theorem non_output_value_is_miss:
  assumes "\<not> crashed s" and "map_of (entries (cache s)) u = Some v"
    and "\<forall>out. v \<noteq> OutputResp out"
  shows "pullAndResponse u w (cache s) = (False, w, snd (Get u (cache s))) \<and>
    step (Arrive u) s =
      Some (s\<lparr>cache := snd (Get u (cache s)),
              reqs := reqs s @
                [\<lparr>reqURL = u, writer = addJSONContentType newResponseWriter,
                  started = now s, ctxDone = (ctxTimeout (srv s) \<le> 0),
                  mainPC = MSelect, workerPC = WRequest\<rparr>]\<rparr>)"
  using assms
  by (cases v) (simp_all add: step_def handlerFunc_enter_def pullAndResponse_def Get_def)

theorem non_output_value_is_miss_witness:
  "step (Arrive ''/x'')
     \<lparr>srv = newServer newConfig,
      cache = \<lparr>capacity = 1000, entries = [(''/x'', InputResp [])]\<rparr>,
      reqs = [], upstream = [], now = 0, crashed = False\<rparr> =
   Some \<lparr>srv = newServer newConfig,
      cache = \<lparr>capacity = 1000, entries = [(''/x'', InputResp [])]\<rparr>,
      reqs = [\<lparr>reqURL = ''/x'', writer = addJSONContentType newResponseWriter,
                  started = 0, ctxDone = False, mainPC = MSelect, workerPC = WRequest\<rparr>],
      upstream = [], now = 0, crashed = False\<rparr>"
proof -
  let ?s = "\<lparr>srv = newServer newConfig,
      cache = \<lparr>capacity = 1000, entries = [(''/x'', InputResp [])]\<rparr>,
      reqs = [], upstream = [], now = 0, crashed = False\<rparr>"
  have 1: "\<not> crashed ?s" by simp
  have 2: "map_of (entries (cache ?s)) ''/x'' = Some (InputResp [])" by simp
  have 3: "\<forall>out. InputResp [] \<noteq> OutputResp out" by simp
  have 4: "ctxTimeout (srv ?s) \<le> 0 \<longleftrightarrow> False"
    by (simp add: ctxTimeout_def newServer_def newConfig_def Millisecond_def)
  from non_output_value_is_miss [OF 1 2 3, of newResponseWriter]
  have "step (Arrive ''/x'') ?s =
      Some (?s\<lparr>cache := snd (Get ''/x'' (cache ?s)),
              reqs := reqs ?s @
                [\<lparr>reqURL = ''/x'', writer = addJSONContentType newResponseWriter,
                  started = now ?s, ctxDone = (ctxTimeout (srv ?s) \<le> 0),
                  mainPC = MSelect, workerPC = WRequest\<rparr>]\<rparr>)"
    by (rule conjunct2)
  then show ?thesis unfolding 4 by (simp add: Get_def)
qed

section \<open>The deadline and the call in flight\<close>





text \<open>
  C2: with the default configuration (3000 ms) and a target service that answers after
  5 s, the timer of the context cannot fire at 5 s, since the duration given to
  \<^verbatim>\<open>context.WithTimeout\<close> is 3000000 s: the client gets status 200 with the result
  when the answer arrives, and no 504 after 3 s. And when the deadline does pass after
  the goroutine has written and before it signals, the status stays 200 and the error
  body follows the result.
\<close>

theorem slow_upstream_default_config:
  "serve newConfig [Arrive ''/v2/places.json'', Main 0, Tick 5000000000, Deadline 0] = None \<and>
   map_option (answer 0)
     (serve newConfig [Arrive ''/v2/places.json'', Main 0, Tick 5000000000,
        Fetched 0 (Response 200 (Document (JArr []))), Worker 0, Worker 0, Worker 0])
     = Some (Some 200, [Marshal []]) \<and>
   map_option (answer 0)
     (serve newConfig [Arrive ''/v2/places.json'', Main 0, Tick 3000000000000000,
        Fetched 0 (Response 200 (Document (JArr []))), Worker 0, Worker 0, Deadline 0,
        Main 0, Main 0])
     = Some (Some 200, [Marshal [], Bytes internalErr])"
  by (simp add: model_defs Unmarshal_def transform_def transform_loop.simps)

section \<open>What the cache holds\<close>

lemma fetchedOk_append: "fetchedOk sv log k out \<Longrightarrow> fetchedOk sv (log @ l) k out"
  by (auto simp: fetchedOk_def list_ex_iff)

lemma okValue_append: "okValue sv log e \<Longrightarrow> okValue sv (log @ l) e"
  by (auto simp: okValue_def split: iface.splits intro: fetchedOk_append)

lemma okWorker_append: "okWorker sv log r \<Longrightarrow> okWorker sv (log @ l) r"
  by (auto simp: okWorker_def split: workerPC.splits intro: fetchedOk_append)

lemma entries_Get: "set (entries (snd (Get k c))) \<subseteq> set (entries c)"
  by (auto simp: Get_def split: option.splits dest: map_of_SomeD)

lemma entries_Add: "set (entries (Add k v c)) \<subseteq> insert (k, v) (set (entries c))"
  by (auto simp: Add_def dest: in_set_butlastD)

lemma entries_pull:
  "pullAndResponse u w c = (b, w', c') \<Longrightarrow> set (entries c') \<subseteq> set (entries c)"
  using entries_Get [of u c]
  by (auto simp: pullAndResponse_def split: prod.splits option.splits iface.splits)

lemma request_Inr: "request cd rep = Inr input \<Longrightarrow> request False rep = Inr input"
  by (cases rep; cases cd) (auto simp: request_def split: if_splits)

lemma list_all_update:
  "list_all P xs \<Longrightarrow> P y \<Longrightarrow> list_all P (xs[i := y])"
  by (metis (full_types) insertE list_all_iff set_update_subset_insert subsetD)

lemma list_all_subset: "list_all P xs \<Longrightarrow> set ys \<subseteq> set xs \<Longrightarrow> list_all P ys"
  by (auto simp: list_all_iff)

lemma enter_worker:
  "handlerFunc_enter sv t u c = (r, c') \<Longrightarrow> okWorker sv log r \<and> set (entries c') \<subseteq> set (entries c)"
  by (auto simp: handlerFunc_enter_def okWorker_def split: prod.splits bool.splits if_splits
      dest: entries_pull)

lemma main_worker: "handlerFunc_step r = Some r' \<Longrightarrow> okWorker sv log r \<Longrightarrow> okWorker sv log r'"
  by (cases "mainPC r")
    (auto simp: handlerFunc_step_def okWorker_def split: if_splits workerPC.splits)

lemma fire_worker: "okWorker sv log r \<Longrightarrow> okWorker sv log (ctxFire r)"
  by (auto simp: ctxFire_def okWorker_def split: workerPC.splits)

lemma fetch_worker:
  "handler_fetch rep r = Some r' \<Longrightarrow>
   okWorker sv (log @ [(targetAddress sv @ reqURL r, rep)]) r'"
  by (cases "workerPC r")
    (auto simp: handler_fetch_def okWorker_def fetchedOk_def
      split: sum.splits dest: request_Inr)

lemma worker_worker:
  assumes "handler_step r c = Some (r', c')" and "okWorker sv log r"
    and "list_all (okValue sv log) (entries c)"
  shows "okWorker sv log r' \<and> list_all (okValue sv log) (entries c')"
proof (cases "workerPC r")
  case (WPush out)
  with assms(1) have r': "r' = r\<lparr>workerPC := WResponse out\<rparr>"
    and c': "c' = Add (reqURL r) (OutputResp out) c"
    by (auto simp: handler_step_def push_def)
  from WPush assms(2) have "okValue sv log (reqURL r, OutputResp out)"
    by (simp add: okWorker_def okValue_def)
  with assms(3) have "list_all (okValue sv log) (entries c')"
    unfolding c' using entries_Add [of "reqURL r" "OutputResp out" c]
    by (auto simp: list_all_iff)
  with r' show ?thesis by (simp add: okWorker_def)
qed (use assms in \<open>auto simp: handler_step_def okWorker_def split: if_splits\<close>)

lemma step_cache_inv:
  assumes inv: "cache_inv s" and st: "step a s = Some s'"
  shows "cache_inv s'"
proof -
  from inv have E: "list_all (okValue (srv s) (upstream s)) (entries (cache s))"
    and R: "list_all (okWorker (srv s) (upstream s)) (reqs s)"
    by (simp_all add: cache_inv_def)
  show ?thesis
  proof (cases a)
    case (Tick d)
    with st inv show ?thesis by (auto simp: step_def cache_inv_def split: if_splits)
  next
    case (Arrive u)
    with st obtain r c where e: "handlerFunc_enter (srv s) (now s) u (cache s) = (r, c)"
      and s': "s' = s\<lparr>cache := c, reqs := reqs s @ [r]\<rparr>"
      by (auto simp: step_def split: if_splits prod.splits)
    from enter_worker [OF e, of "upstream s"] E R show ?thesis
      unfolding s' by (auto simp: cache_inv_def list_all_iff)
  next
    case (Main i)
    with st obtain r where i: "i < length (reqs s)"
      and h: "handlerFunc_step (reqs s ! i) = Some r"
      and s': "s' = s\<lparr>reqs := (reqs s)[i := r]\<rparr>"
      by (auto simp: step_def split: if_splits option.splits)
    from R i have "okWorker (srv s) (upstream s) (reqs s ! i)" by (simp add: list_all_length)
    with h have "okWorker (srv s) (upstream s) r" by (rule main_worker)
    with R have "list_all (okWorker (srv s) (upstream s)) ((reqs s)[i := r])"
      by (rule list_all_update)
    with E show ?thesis unfolding s' by (simp add: cache_inv_def)
  next
    case (Worker i)
    with st obtain r c where i: "i < length (reqs s)"
      and h: "handler_step (reqs s ! i) (cache s) = Some (r, c)"
      and s': "s' = s\<lparr>cache := c, reqs := (reqs s)[i := r]\<rparr>"
      by (auto simp: step_def split: if_splits option.splits)
    from R i have "okWorker (srv s) (upstream s) (reqs s ! i)" by (simp add: list_all_length)
    from worker_worker [OF h this E]
    have 1: "okWorker (srv s) (upstream s) r" and 2: "list_all (okValue (srv s) (upstream s)) (entries c)"
      by simp_all
    from R 1 have "list_all (okWorker (srv s) (upstream s)) ((reqs s)[i := r])"
      by (rule list_all_update)
    with 2 show ?thesis unfolding s' by (simp add: cache_inv_def)
  next
    case (Fetched i rep)
    let ?log = "upstream s @ [(targetAddress (srv s) @ reqURL (reqs s ! i), rep)]"
    from Fetched st obtain r where i: "i < length (reqs s)"
      and h: "handler_fetch rep (reqs s ! i) = Some r"
      and s': "s' = s\<lparr>reqs := (reqs s)[i := r], upstream := ?log,
                 crashed := (workerPC r = WPanic)\<rparr>"
      by (auto simp: step_def split: if_splits option.splits)
    from h have 1: "okWorker (srv s) ?log r" by (rule fetch_worker)
    from R have "list_all (okWorker (srv s) ?log) (reqs s)"
      by (auto simp: list_all_iff intro: okWorker_append)
    then have 2: "list_all (okWorker (srv s) ?log) ((reqs s)[i := r])"
      using 1 by (rule list_all_update)
    from E have "list_all (okValue (srv s) ?log) (entries (cache s))"
      by (auto simp: list_all_iff intro: okValue_append)
    with 2 show ?thesis unfolding s' by (simp add: cache_inv_def)
  next
    case (Deadline i)
    with st have i: "i < length (reqs s)"
      and s': "s' = s\<lparr>reqs := (reqs s)[i := ctxFire (reqs s ! i)]\<rparr>"
      by (auto simp: step_def split: if_splits)
    from R i have "okWorker (srv s) (upstream s) (reqs s ! i)" by (simp add: list_all_length)
    then have "okWorker (srv s) (upstream s) (ctxFire (reqs s ! i))" by (rule fire_worker)
    with R have "list_all (okWorker (srv s) (upstream s)) ((reqs s)[i := ctxFire (reqs s ! i)])"
      by (rule list_all_update)
    with E show ?thesis unfolding s' by (simp add: cache_inv_def)
  next
    case (Cancel i)
    with st have i: "i < length (reqs s)"
      and s': "s' = s\<lparr>reqs := (reqs s)[i := ctxFire (reqs s ! i)]\<rparr>"
      by (auto simp: step_def split: if_splits)
    from R i have "okWorker (srv s) (upstream s) (reqs s ! i)" by (simp add: list_all_length)
    then have "okWorker (srv s) (upstream s) (ctxFire (reqs s ! i))" by (rule fire_worker)
    with R have "list_all (okWorker (srv s) (upstream s)) ((reqs s)[i := ctxFire (reqs s ! i)])"
      by (rule list_all_update)
    with E show ?thesis unfolding s' by (simp add: cache_inv_def)
  qed
qed

lemma serve_cache_inv:
  assumes "serve cfg acts = Some s"
  shows "cache_inv s"
proof -
  from assms obtain s0 where b: "boot cfg = Inr s0" and r: "run acts s0 = Some s"
    by (simp add: serve_def split: sum.splits)
  from b have 0: "cache_inv s0"
    by (auto simp: boot_def New_def cache_inv_def split: sum.splits if_splits)
  show ?thesis
    by (rule run_invariant [where P = cache_inv, OF _ 0 r]) (rule step_cache_inv)
qed

text \<open>
  C7: in every state the server reaches, every value in the cache is an
  \<^verbatim>\<open>outputResp\<close> that \<open>transform\<close> made from a collection decoded from an answer of
  the target service to a call for the URL of the key; so an entry is written only
  after the fetch and the transform for its key have succeeded, and never holds an
  input collection or an error.
\<close>

theorem cache_holds_transformed_results:
  assumes "serve cfg acts = Some s" and "(k, v) \<in> set (entries (cache s))"
  shows "\<exists>out rep input. v = OutputResp out \<and>
    (targetAddress (srv s) @ k, rep) \<in> set (upstream s) \<and>
    request False rep = Inr input \<and> transform input = Inr out"
proof -
  from serve_cache_inv [OF assms(1)] assms(2)
  have "okValue (srv s) (upstream s) (k, v)" by (auto simp: cache_inv_def list_all_iff)
  then obtain out where v: "v = OutputResp out" and f: "fetchedOk (srv s) (upstream s) k out"
    by (auto simp: okValue_def split: iface.splits)
  from f obtain call where c: "call \<in> set (upstream s)" "fst call = targetAddress (srv s) @ k"
    and q: "case request False (snd call) of Inl e \<Rightarrow> False
            | Inr input \<Rightarrow> transform input = Inr out"
    by (auto simp: fetchedOk_def list_ex_iff)
  from q obtain input where "request False (snd call) = Inr input" "transform input = Inr out"
    by (auto split: sum.splits)
  with c v show ?thesis by (metis prod.collapse)
qed


theorem cache_holds_transformed_results_witness:
  "\<exists>s. serve newConfig [Arrive ''/x'', Main 0,
          Fetched 0 (Response 200 (Document (JArr []))), Worker 0] = Some s \<and>
     (''/x'', OutputResp []) \<in> set (entries (cache s)) \<and>
     (\<exists>out rep input. OutputResp [] = OutputResp out \<and>
        (targetAddress (srv s) @ ''/x'', rep) \<in> set (upstream s) \<and>
        request False rep = Inr input \<and> transform input = Inr out)"
proof -
  let ?tr = "[Arrive ''/x'', Main 0, Fetched 0 (Response 200 (Document (JArr []))), Worker 0]"
  have "\<exists>s. serve newConfig ?tr = Some s \<and> (''/x'', OutputResp []) \<in> set (entries (cache s))"
    by (simp add: model_defs Unmarshal_def transform_def transform_loop.simps)
  then obtain s where s: "serve newConfig ?tr = Some s"
    and e: "(''/x'', OutputResp []) \<in> set (entries (cache s))" by blast
  from cache_holds_transformed_results [OF s e] s e show ?thesis by blast
qed

section \<open>A request for a cached key\<close>

lemma map_of_Add: "map_of (entries (Add k v c)) k = Some v"
  by (simp add: Add_def)

lemma hit_enter:
  assumes "map_of (entries c) u = Some (OutputResp out)"
  shows "handlerFunc_enter sv t u c =
    (\<lparr>reqURL = u,
      writer = \<lparr>header = [(''Content-Type'', ''application/json'')], status = Some 200,
                written = [Marshal out]\<rparr>,
      started = t, ctxDone = True, mainPC = MCacheHit, workerPC = WNone\<rparr>,
     snd (Get u c))"
  using assms
  by (simp add: handlerFunc_enter_def pullAndResponse_def Get_def response_def Write_def
      WriteHeader_def addJSONContentType_def newResponseWriter_def)

text \<open>
  C8: the goroutine of a request for the key K stores its result (the step from
  \<open>WPush\<close>, which follows a successful fetch and transform); right after that the
  cache holds the result under K. Whatever happens then, if the cache still holds it
  under K when a request for K arrives, that request is answered at once with status
  200 and this result, starts no goroutine, adds no call of the target service, and can
  never make one.
\<close>

theorem cached_key_served_without_upstream:
  assumes "i < length (reqs s)" and "workerPC (reqs s ! i) = WPush out"
    and "step (Worker i) s = Some s1"
    and "run acts s1 = Some s2"
    and "map_of (entries (cache s2)) (reqURL (reqs s ! i)) = Some (OutputResp out)"
    and "step (Arrive (reqURL (reqs s ! i))) s2 = Some s3"
  shows "map_of (entries (cache s1)) (reqURL (reqs s ! i)) = Some (OutputResp out) \<and>
    answer (length (reqs s2)) s3 = (Some 200, [Marshal out]) \<and>
    outcome (length (reqs s2)) s3 = (MCacheHit, WNone) \<and>
    upstream s3 = upstream s2 \<and>
    step (Fetched (length (reqs s2)) rep) s3 = None"
proof -
  let ?K = "reqURL (reqs s ! i)"
  from assms(1,2,3) have "cache s1 = Add ?K (OutputResp out) (cache s)"
    by (auto simp: step_def handler_step_def push_def split: if_splits)
  then have 1: "map_of (entries (cache s1)) ?K = Some (OutputResp out)"
    by (simp add: map_of_Add)
  from assms(6) have nc: "\<not> crashed s2" by (auto simp: step_def split: if_splits)
  from assms(6) nc hit_enter [OF assms(5), of "srv s2" "now s2"]
  have s3: "s3 = s2\<lparr>cache := snd (Get ?K (cache s2)),
      reqs := reqs s2 @ [\<lparr>reqURL = ?K,
        writer = \<lparr>header = [(''Content-Type'', ''application/json'')], status = Some 200,
                  written = [Marshal out]\<rparr>,
        started = now s2, ctxDone = True, mainPC = MCacheHit, workerPC = WNone\<rparr>]\<rparr>"
    by (simp add: step_def)
  have "step (Fetched (length (reqs s2)) rep) s3 = None"
    unfolding s3 by (simp add: step_def handler_fetch_def)
  moreover have "answer (length (reqs s2)) s3 = (Some 200, [Marshal out])"
    unfolding s3 by (simp add: answer_def)
  moreover have "outcome (length (reqs s2)) s3 = (MCacheHit, WNone)"
    unfolding s3 by (simp add: outcome_def)
  moreover have "upstream s3 = upstream s2" unfolding s3 by simp
  ultimately show ?thesis using 1 by blast
qed

theorem cached_key_served_without_upstream_witness:
  "map_option (answer 1)
     (serve newConfig [Arrive ''/x'', Main 0, Fetched 0 (Response 200 (Document (JArr []))),
        Worker 0, Worker 0, Worker 0, Arrive ''/x''])
     = Some (Some 200, [Marshal []])"
proof -
  let ?t0 = "[Arrive ''/x'', Main 0, Fetched 0 (Response 200 (Document (JArr [])))]"
  let ?t1 = "[Worker 0, Worker 0]"
  have "\<exists>s s1 s2 s3. serve newConfig ?t0 = Some s \<and> length (reqs s) = 1 \<and>
      workerPC (reqs s ! 0) = WPush [] \<and> reqURL (reqs s ! 0) = ''/x'' \<and>
      step (Worker 0) s = Some s1 \<and> run ?t1 s1 = Some s2 \<and> length (reqs s2) = 1 \<and>
      map_of (entries (cache s2)) ''/x'' = Some (OutputResp []) \<and>
      step (Arrive ''/x'') s2 = Some s3 \<and>
      serve newConfig (?t0 @ [Worker 0] @ ?t1 @ [Arrive ''/x'']) = Some s3"
    by (simp add: model_defs Unmarshal_def transform_def transform_loop.simps)
  then obtain s s1 s2 s3 where s: "serve newConfig ?t0 = Some s" and l1: "length (reqs s) = 1"
    and w: "workerPC (reqs s ! 0) = WPush []" and u: "reqURL (reqs s ! 0) = ''/x''"
    and 1: "step (Worker 0) s = Some s1" and 2: "run ?t1 s1 = Some s2"
    and l2: "length (reqs s2) = 1"
    and m: "map_of (entries (cache s2)) ''/x'' = Some (OutputResp [])"
    and 3: "step (Arrive ''/x'') s2 = Some s3"
    and f: "serve newConfig (?t0 @ [Worker 0] @ ?t1 @ [Arrive ''/x'']) = Some s3"
    by blast
  from l1 have l: "0 < length (reqs s)" by simp
  from cached_key_served_without_upstream [OF l w 1 2, unfolded u, OF m 3]
  have "answer (length (reqs s2)) s3 = (Some 200, [Marshal []])" by blast
  with l2 f show ?thesis by simp
qed

section \<open>The decoder tolerates what it does not read\<close>



















lemma find_unknown: "findField ''extra'' = None" "findField ''CODE'' = Some FCode"
  by (simp_all add: findField_def itemFields_def isLetter_def upper_def)


section \<open>The steps of the goroutine and the function they come from\<close>

text \<open>
  The steps of the goroutine, taken without interruption, do what \<open>handler\<close> does:
  on an error of \<^verbatim>\<open>s.request\<close> the error body is written; on success the result is
  pushed and then written; on a nil element the goroutine panics.
\<close>

lemma handler_error_path:
  assumes "workerPC r = WRequest" and "request (ctxDone r) rep = Inl e"
  shows "handler (ctxDone r) (reqURL r) rep (writer r) c = Inr (Write (Bytes internalErr) (writer r), c) \<and>
    handler_fetch rep r = Some (r\<lparr>workerPC := WWriteErr\<rparr>) \<and>
    handler_step (r\<lparr>workerPC := WWriteErr\<rparr>) c =
      Some (r\<lparr>writer := Write (Bytes internalErr) (writer r), workerPC := WSignal\<rparr>, c)"
  using assms by (simp add: handler_def handler_fetch_def handler_step_def)

lemma handler_success_path:
  assumes "workerPC r = WRequest" and "request (ctxDone r) rep = Inr input"
    and "transform input = Inr out"
  shows "handler (ctxDone r) (reqURL r) rep (writer r) c =
      Inr (response (writer r) out, push (reqURL r) (OutputResp out) c) \<and>
    handler_fetch rep r = Some (r\<lparr>workerPC := WPush out\<rparr>) \<and>
    handler_step (r\<lparr>workerPC := WPush out\<rparr>) c =
      Some (r\<lparr>workerPC := WResponse out\<rparr>, push (reqURL r) (OutputResp out) c) \<and>
    handler_step (r\<lparr>workerPC := WResponse out\<rparr>) c' =
      Some (r\<lparr>writer := response (writer r) out, workerPC := WSignal\<rparr>, c')"
  using assms by (simp add: handler_def handler_fetch_def handler_step_def)

lemma handler_panic_path:
  assumes "workerPC r = WRequest" and "request (ctxDone r) rep = Inr input"
    and "transform input = Inl e"
  shows "handler (ctxDone r) (reqURL r) rep (writer r) c = Inl e \<and>
    handler_fetch rep r = Some (r\<lparr>workerPC := WPanic\<rparr>)"
  using assms by (simp add: handler_def handler_fetch_def)

text \<open>The duration of the context is the configured number times 1000000 twice, wrapped.\<close>

lemma ctxTimeout_product:
  "ctxTimeout (newServer cfg) = sint (RequestTimeout cfg * 1000000 * 1000000)"
  by (simp add: ctxTimeout_def newServer_def Millisecond_def)

end
